theory Spec2Isabelle
  imports Main
begin

section \<open>Values of the host language\<close>

text \<open>
  The filters tool receives its parameters as parsed JSON. A field that is \<open>undefined\<close>
  is \<open>None\<close>. JavaScript numbers are kept abstract (type variable \<open>'n\<close>): the tool only
  carries them around and converts strings to them with \<open>Number\<close>, which is a parameter.
\<close>

definition truthy :: "string option \<Rightarrow> bool" where
  \<comment> \<open>JavaScript truthiness of \<open>string | undefined\<close>: the empty string and \<open>undefined\<close> are falsy.\<close>
  "truthy s = (case s of None \<Rightarrow> False | Some t \<Rightarrow> t \<noteq> [])"

definition or_else :: "string option \<Rightarrow> string option \<Rightarrow> string option" where
  \<comment> \<open>\<open>a || b\<close> on \<open>string | undefined\<close>.\<close>
  "or_else a b = (if truthy a then a else b)"

definition nth_opt :: "'a list \<Rightarrow> nat \<Rightarrow> 'a option" where
  \<comment> \<open>\<open>xs[i]\<close>: \<open>undefined\<close> beyond the end of the array.\<close>
  "nth_opt xs i = (if i < length xs then Some (xs ! i) else None)"

fun includes_str :: "string \<Rightarrow> string \<Rightarrow> bool" where
  \<comment> \<open>\<open>s.includes(sub)\<close>\<close>
  "includes_str [] sub = (sub = [])"
| "includes_str (c # cs) sub = (take (length sub) (c # cs) = sub \<or> includes_str cs sub)"

fun join :: "string \<Rightarrow> string list \<Rightarrow> string" where
  \<comment> \<open>the strings \<open>xs\<close> with \<open>sep\<close> between neighbours\<close>
  "join sep [] = []"
| "join sep [x] = x"
| "join sep (x # y # ys) = x @ sep @ join sep (y # ys)"

section \<open>Filter conditions and expressions\<close>

datatype 'n ArrayItem = AString string | ANumber 'n

datatype 'n FilterValue =
    VString string
  | VNumber 'n
  | VBoolean bool
  | VArray "'n ArrayItem list"

text \<open>
  A condition as the tool handles it at run time. In the \<open>create\<close> action the field and
  the comparator are arbitrary strings cast to \<open>FilterField\<close> and \<open>FilterOperator\<close>, and
  the comparator is \<open>undefined\<close> when \<open>filter_comparator\<close> is shorter than \<open>filter_by\<close>.
\<close>

record 'n FilterCondition =
  c_field :: string
  c_operator :: "string option"
  c_value :: "'n FilterValue"

definition FilterField_names :: "string list" where
  "FilterField_names =
     [''done'', ''priority'', ''percentDone'', ''dueDate'', ''assignees'', ''labels'',
      ''created'', ''updated'', ''title'', ''description'']"

definition FilterOperator_names :: "string list" where
  "FilterOperator_names = [''='', ''!='', ''>'', ''>='', ''<'', ''<='', ''like'', ''in'', ''not in'']"

datatype Combinator = AND | OR

datatype 'c FilterExpression =
    Condition 'c
  | BinaryNode Combinator "'c FilterExpression" "'c FilterExpression"

section \<open>The Builder\<close>

text \<open>
  Modelled from the spec: the class \<open>FilterBuilder\<close> of \<open>utils/filters\<close> is not among the
  sources. Section 4.3 of the specification: the first \<open>where()\<close> establishes the initial
  leaf; each later \<open>where()\<close> is combined with the chain so far by the combinator that
  was invoked immediately before it, AND if none was; \<open>toString()\<close> writes the chain with
  explicit \<open>&&\<close>/\<open>||\<close> tokens between the conditions, and zero conditions give the empty
  string. How one condition is written is the parameter \<open>condStr\<close>.
\<close>

record 'c FilterBuilder =
  b_expr :: "'c FilterExpression option"
  b_pending :: "Combinator option"

definition new_FilterBuilder :: "'c FilterBuilder" where
  \<comment> \<open>Modelled from the spec: \<open>new FilterBuilder()\<close>, no condition yet\<close>
  "new_FilterBuilder = \<lparr>b_expr = None, b_pending = None\<rparr>"

definition where_b :: "'c \<Rightarrow> 'c FilterBuilder \<Rightarrow> 'c FilterBuilder" where
  \<comment> \<open>Modelled from the spec: \<open>where(field, operator, value)\<close>\<close>
  "where_b c b =
     (case b_expr b of
        None \<Rightarrow> \<lparr>b_expr = Some (Condition c), b_pending = None\<rparr>
      | Some e \<Rightarrow>
          \<lparr>b_expr = Some (BinaryNode (case b_pending b of None \<Rightarrow> AND | Some k \<Rightarrow> k) e (Condition c)),
           b_pending = None\<rparr>)"

definition and_b :: "'c FilterBuilder \<Rightarrow> 'c FilterBuilder" where
  \<comment> \<open>Modelled from the spec: \<open>and()\<close>\<close>
  "and_b b = b\<lparr>b_pending := Some AND\<rparr>"

definition or_b :: "'c FilterBuilder \<Rightarrow> 'c FilterBuilder" where
  \<comment> \<open>Modelled from the spec: \<open>or()\<close>\<close>
  "or_b b = b\<lparr>b_pending := Some OR\<rparr>"

fun combinatorToken :: "Combinator \<Rightarrow> string" where
  "combinatorToken AND = ''&&''"
| "combinatorToken OR = ''||''"

fun expressionToString :: "('c \<Rightarrow> string) \<Rightarrow> 'c FilterExpression \<Rightarrow> string" where
  \<comment> \<open>Modelled from the spec: the chain in the filter-string grammar, as in \<open>priority >= 3 && done = false\<close>\<close>
  "expressionToString condStr (Condition c) = condStr c"
| "expressionToString condStr (BinaryNode k l r) =
     expressionToString condStr l @ '' '' @ combinatorToken k @ '' '' @ expressionToString condStr r"

definition toString :: "('c \<Rightarrow> string) \<Rightarrow> 'c FilterBuilder \<Rightarrow> string" where
  \<comment> \<open>Modelled from the spec: \<open>toString()\<close>; zero conditions serialize to the empty string\<close>
  "toString condStr b = (case b_expr b of None \<Rightarrow> [] | Some e \<Rightarrow> expressionToString condStr e)"

section \<open>Errors and responses of the filters tool\<close>

datatype ErrorCode = NOT_FOUND | VALIDATION_ERROR | NOT_IMPLEMENTED | INTERNAL_ERROR

text \<open>
  What a \<open>throw\<close> inside the handler carries: an \<open>MCPError\<close> with its code and message, the
  \<open>ZodError\<close> of a schema that rejected the parameters, or any other error (raised by the
  storage or the session layer), of which only the message is read.
\<close>

datatype Thrown =
    MCPError ErrorCode string
  | ZodError string
  | OtherError string

fun message_of :: "Thrown \<Rightarrow> string" where
  "message_of (MCPError c m) = m"
| "message_of (ZodError m) = m"
| "message_of (OtherError m) = m"

definition createValidationError :: "string \<Rightarrow> Thrown" where
  \<comment> \<open>Modelled from the spec: \<open>utils/error-handler\<close> is not among the sources; the
      specification calls these caller-level validation errors.\<close>
  "createValidationError m = MCPError VALIDATION_ERROR m"

section \<open>Saved filters and their storage\<close>

text \<open>
  \<open>created\<close> and \<open>updated\<close> are dates of which the tool reads only \<open>toISOString()\<close>; they
  are held as that string.
\<close>

record 'n SavedFilter =
  sf_id :: string
  sf_name :: string
  sf_description :: "string option"
  sf_filter :: string
  sf_projectId :: "'n option"
  sf_isGlobal :: bool
  sf_created :: string
  sf_updated :: string

text \<open>The argument of \<open>storage.create\<close> and of \<open>storage.update\<close>. A key left out of the
  object literal is \<open>None\<close>.\<close>

record 'n NewFilter =
  nf_name :: string
  nf_filter :: string
  nf_isGlobal :: bool
  nf_description :: "string option"
  nf_projectId :: "'n option"

record 'n UpdateData =
  ud_name :: "string option"
  ud_description :: "string option"
  ud_filter :: "string option"
  ud_projectId :: "'n option"
  ud_isGlobal :: "bool option"

text \<open>
  The session-scoped storage is an external collaborator, not among the sources. It is
  taken as a parameter: a state \<open>'s\<close> and the operations the tool calls on it. A lookup
  reads the state and gives the filter, \<open>None\<close> when there is none, or throws; a mutation
  also gives the new state.
\<close>

record ('s, 'n) Storage =
  st_get :: "string \<Rightarrow> 's \<Rightarrow> Thrown + 'n SavedFilter option"
  st_findByName :: "string \<Rightarrow> 's \<Rightarrow> Thrown + 'n SavedFilter option"
  st_create :: "'n NewFilter \<Rightarrow> 's \<Rightarrow> (Thrown + 'n SavedFilter) \<times> 's"
  st_update :: "string \<Rightarrow> 'n UpdateData \<Rightarrow> 's \<Rightarrow> (Thrown + 'n SavedFilter) \<times> 's"
  st_delete :: "string \<Rightarrow> 's \<Rightarrow> (Thrown + unit) \<times> 's"

text \<open>The calls an action made on the storage, in order.\<close>

datatype 'n StorageCall =
    CallGet string
  | CallFindByName string
  | CallCreate "'n NewFilter"
  | CallUpdate string "'n UpdateData"
  | CallDelete string

fun is_create :: "'n StorageCall \<Rightarrow> bool" where
  "is_create (CallCreate d) = True"
| "is_create _ = False"

fun is_update :: "'n StorageCall \<Rightarrow> bool" where
  "is_update (CallUpdate i d) = True"
| "is_update _ = False"

fun is_delete :: "'n StorageCall \<Rightarrow> bool" where
  "is_delete (CallDelete i) = True"
| "is_delete _ = False"

section \<open>Responses\<close>

datatype 'n ResponseData =
    FilterData "'n SavedFilter"
  | SuccessData
  | BuildData string bool "string list"
  | ValidateData bool "string list" "string list" string

datatype Metadata = NoMetadata | ConditionCount nat | AffectedFields "string list"

text \<open>The arguments of \<open>createStandardResponse\<close>.\<close>

record 'n Response =
  r_operation :: string
  r_message :: string
  r_data :: "'n ResponseData"
  r_metadata :: Metadata

text \<open>What one case of the handler's \<open>switch\<close> gives: the response or what it threw, the
  storage afterwards, and the storage calls made.\<close>

type_synonym ('s, 'n) Outcome = "(Thrown + 'n Response) \<times> 's \<times> 'n StorageCall list"

definition quoted :: "string \<Rightarrow> string" where
  \<comment> \<open>\<open>"${s}"\<close> in a template literal\<close>
  "quoted s = CHR 0x22 # s @ [CHR 0x22]"

definition not_found_message :: "string \<Rightarrow> string" where
  "not_found_message i = ''Filter with id '' @ i @ '' not found''"

definition already_exists_message :: "string \<Rightarrow> string" where
  "already_exists_message n = ''Filter with name '' @ quoted n @ '' already exists''"

section \<open>The get and delete actions\<close>

definition get_action :: "('s, 'n) Storage \<Rightarrow> string \<Rightarrow> 's \<Rightarrow> ('s, 'n) Outcome" where
  "get_action storage i s =
     (case st_get storage i s of
        Inl e \<Rightarrow> (Inl e, s, [CallGet i])
      | Inr None \<Rightarrow> (Inl (MCPError NOT_FOUND (not_found_message i)), s, [CallGet i])
      | Inr (Some f) \<Rightarrow>
          (Inr \<lparr>r_operation = ''get-saved-filter'',
                r_message = ''Retrieved filter '' @ quoted (sf_name f),
                r_data = FilterData f, r_metadata = NoMetadata\<rparr>,
           s, [CallGet i]))"

definition delete_action :: "('s, 'n) Storage \<Rightarrow> string \<Rightarrow> 's \<Rightarrow> ('s, 'n) Outcome" where
  "delete_action storage i s =
     (case st_get storage i s of
        Inl e \<Rightarrow> (Inl e, s, [CallGet i])
      | Inr None \<Rightarrow> (Inl (MCPError NOT_FOUND (not_found_message i)), s, [CallGet i])
      | Inr (Some f) \<Rightarrow>
          (case st_delete storage i s of
             (Inl e, s') \<Rightarrow> (Inl e, s', [CallGet i, CallDelete i])
           | (Inr u, s') \<Rightarrow>
               (Inr \<lparr>r_operation = ''delete-saved-filter'',
                     r_message = ''Filter '' @ quoted (sf_name f) @ '' deleted successfully'',
                     r_data = SuccessData, r_metadata = NoMetadata\<rparr>,
                s', [CallGet i, CallDelete i])))"

section \<open>The create action\<close>

text \<open>
  Parameters are held as their schema types them: an optional key is an option, a
  required key is plain. A request whose keys have other types is rejected by the schema
  before any of the code below runs; such a request has no value here. The conditions a
  schema puts on values (the \<open>refine\<close> of the create schema, the enums of the build
  schema) are checked by the model.
\<close>

record FiltersObject =
  fo_filter_by :: "string list option"
  fo_filter_value :: "string list option"
  fo_filter_comparator :: "string list option"
  fo_filter_concat :: "string option"

record 'n CreateParams =
  cp_name :: "string option"
  cp_title :: "string option"
  cp_description :: "string option"
  cp_filter :: "string option"
  cp_filters :: "FiltersObject option"
  cp_projectId :: "'n option"
  cp_isGlobal :: "bool option"
  cp_is_favorite :: "bool option"

definition CreateFilterSchema_ok :: "'n CreateParams \<Rightarrow> bool" where
  \<comment> \<open>the \<open>refine\<close> of \<open>CreateFilterSchema\<close>: \<open>(name || title) && (filter || filters)\<close>\<close>
  "CreateFilterSchema_ok p =
     (truthy (or_else (cp_name p) (cp_title p)) \<and> (truthy (cp_filter p) \<or> cp_filters p \<noteq> None))"

definition isGlobal_parsed :: "'n CreateParams \<Rightarrow> bool" where
  \<comment> \<open>\<open>isGlobal: z.boolean().default(false)\<close>\<close>
  "isGlobal_parsed p = (case cp_isGlobal p of None \<Rightarrow> False | Some b \<Rightarrow> b)"

definition typedValue :: "(string \<Rightarrow> 'n) \<Rightarrow> string \<Rightarrow> string \<Rightarrow> 'n FilterValue" where
  "typedValue Number fld v =
     (if fld = ''priority'' \<or> fld = ''percentDone'' then VNumber (Number v)
      else if fld = ''done'' then VBoolean (v = ''true'')
      else VString v)"

definition condition_at ::
  "(string \<Rightarrow> 'n) \<Rightarrow> string list \<Rightarrow> string list \<Rightarrow> string list \<Rightarrow> nat \<Rightarrow> 'n FilterCondition option" where
  \<comment> \<open>one round of the loop over \<open>filter_by\<close>: the condition pushed at index \<open>i\<close>, if any\<close>
  "condition_at Number filter_by filter_value filter_comparator i =
     (case nth_opt filter_value i of
        None \<Rightarrow> None
      | Some v \<Rightarrow>
          if v = [] then None
          else Some \<lparr>c_field = filter_by ! i, c_operator = nth_opt filter_comparator i,
                     c_value = typedValue Number (filter_by ! i) v\<rparr>)"

definition collect_conditions ::
  "(string \<Rightarrow> 'n) \<Rightarrow> string list \<Rightarrow> string list \<Rightarrow> string list \<Rightarrow> 'n FilterCondition list" where
  "collect_conditions Number filter_by filter_value filter_comparator =
     List.map_filter (condition_at Number filter_by filter_value filter_comparator)
       [0..<length filter_by]"

definition add_condition :: "string option \<Rightarrow> 'c FilterBuilder \<Rightarrow> 'c \<Rightarrow> 'c FilterBuilder" where
  "add_condition filter_concat b c =
     where_b c (if filter_concat = Some ''||'' then or_b b else and_b b)"

definition effective_conditions :: "(string \<Rightarrow> 'n) \<Rightarrow> FiltersObject \<Rightarrow> 'n FilterCondition list" where
  \<comment> \<open>the conditions that reach the builder: none unless all three arrays are given\<close>
  "effective_conditions Number fo =
     (case fo_filter_by fo of None \<Rightarrow> [] | Some fb \<Rightarrow>
      case fo_filter_value fo of None \<Rightarrow> [] | Some fv \<Rightarrow>
      case fo_filter_comparator fo of None \<Rightarrow> [] | Some fc \<Rightarrow>
        collect_conditions Number fb fv fc)"

definition create_builder :: "(string \<Rightarrow> 'n) \<Rightarrow> FiltersObject \<Rightarrow> 'n FilterCondition FilterBuilder" where
  "create_builder Number fo =
     (case effective_conditions Number fo of
        [] \<Rightarrow> new_FilterBuilder
      | c # cs \<Rightarrow> foldl (add_condition (fo_filter_concat fo)) (where_b c new_FilterBuilder) cs)"

definition create_filterString ::
  "(string \<Rightarrow> 'n) \<Rightarrow> ('n FilterCondition \<Rightarrow> string) \<Rightarrow> 'n CreateParams \<Rightarrow> string option" where
  "create_filterString Number condStr p =
     (if truthy (cp_filter p) then cp_filter p
      else case cp_filters p of
             None \<Rightarrow> cp_filter p
           | Some fo \<Rightarrow> Some (toString condStr (create_builder Number fo)))"

definition create_data :: "string \<Rightarrow> string \<Rightarrow> 'n CreateParams \<Rightarrow> 'n NewFilter" where
  "create_data name filterString p =
     \<lparr>nf_name = name, nf_filter = filterString,
      nf_isGlobal = (isGlobal_parsed p \<or> cp_is_favorite p = Some True),
      nf_description = (if truthy (cp_description p) then cp_description p else None),
      nf_projectId = cp_projectId p\<rparr>"

definition create_action ::
  "('s, 'n) Storage \<Rightarrow> (string \<Rightarrow> 'n) \<Rightarrow> ('n FilterCondition \<Rightarrow> string) \<Rightarrow> 'n CreateParams \<Rightarrow> 's \<Rightarrow>
   ('s, 'n) Outcome" where
  "create_action storage Number condStr p s =
     (if \<not> CreateFilterSchema_ok p then
        (Inl (ZodError ''Either name or title must be provided, and either filter or filters must be provided''),
         s, [])
      else
        case or_else (cp_name p) (cp_title p) of
          None \<Rightarrow> (Inl (ZodError ''Either name or title must be provided, and either filter or filters must be provided''), s, [])
        | Some name \<Rightarrow>
           (case create_filterString Number condStr p of
              None \<Rightarrow> (Inl (createValidationError ''No filter conditions provided''), s, [])
            | Some filterString \<Rightarrow>
               if filterString = [] then
                 (Inl (createValidationError ''No filter conditions provided''), s, [])
               else
                 (case st_findByName storage name s of
                    Inl e \<Rightarrow> (Inl e, s, [CallFindByName name])
                  | Inr (Some existing) \<Rightarrow>
                      (Inl (createValidationError (already_exists_message name)), s,
                       [CallFindByName name])
                  | Inr None \<Rightarrow>
                      (case st_create storage (create_data name filterString p) s of
                         (Inl e, s') \<Rightarrow>
                           (Inl e, s', [CallFindByName name, CallCreate (create_data name filterString p)])
                       | (Inr f, s') \<Rightarrow>
                           (Inr \<lparr>r_operation = ''create-saved-filter'',
                                 r_message = ''Filter '' @ quoted (sf_name f) @ '' saved successfully'',
                                 r_data = FilterData f, r_metadata = NoMetadata\<rparr>,
                            s', [CallFindByName name, CallCreate (create_data name filterString p)])))))"

section \<open>The update action\<close>

record 'n UpdateParams =
  up_id :: string
  up_name :: "string option"
  up_description :: "string option"
  up_filter :: "string option"
  up_projectId :: "'n option"
  up_isGlobal :: "bool option"

definition update_data :: "'n UpdateParams \<Rightarrow> 'n UpdateData" where
  "update_data p =
     \<lparr>ud_name = up_name p, ud_description = up_description p, ud_filter = up_filter p,
      ud_projectId = up_projectId p, ud_isGlobal = up_isGlobal p\<rparr>"

definition affectedFields :: "'n UpdateData \<Rightarrow> string list" where
  \<comment> \<open>the keys of \<open>updateData\<close> whose value is not \<open>undefined\<close>, in the order they were set\<close>
  "affectedFields d =
     (if ud_name d \<noteq> None then [''name''] else []) @
     (if ud_description d \<noteq> None then [''description''] else []) @
     (if ud_filter d \<noteq> None then [''filter''] else []) @
     (if ud_projectId d \<noteq> None then [''projectId''] else []) @
     (if ud_isGlobal d \<noteq> None then [''isGlobal''] else [])"

definition update_store ::
  "('s, 'n) Storage \<Rightarrow> 'n UpdateParams \<Rightarrow> 's \<Rightarrow> 'n StorageCall list \<Rightarrow> ('s, 'n) Outcome" where
  \<comment> \<open>the action from \<open>const updateData\<close> on, after the storage calls \<open>before\<close>\<close>
  "update_store storage p s before =
     (case st_update storage (up_id p) (update_data p) s of
        (Inl e, s') \<Rightarrow> (Inl e, s', before @ [CallUpdate (up_id p) (update_data p)])
      | (Inr f, s') \<Rightarrow>
          (Inr \<lparr>r_operation = ''update-saved-filter'',
                r_message = ''Filter '' @ quoted (sf_name f) @ '' updated successfully'',
                r_data = FilterData f, r_metadata = AffectedFields (affectedFields (update_data p))\<rparr>,
           s', before @ [CallUpdate (up_id p) (update_data p)]))"

definition update_action :: "('s, 'n) Storage \<Rightarrow> 'n UpdateParams \<Rightarrow> 's \<Rightarrow> ('s, 'n) Outcome" where
  "update_action storage p s =
     (case up_name p of
        None \<Rightarrow> update_store storage p s []
      | Some name \<Rightarrow>
          if name = [] then update_store storage p s []
          else
            (case st_findByName storage name s of
               Inl e \<Rightarrow> (Inl e, s, [CallFindByName name])
             | Inr None \<Rightarrow> update_store storage p s [CallFindByName name]
             | Inr (Some existing) \<Rightarrow>
                 if sf_id existing \<noteq> up_id p then
                   (Inl (createValidationError (already_exists_message name)), s,
                    [CallFindByName name])
                 else update_store storage p s [CallFindByName name]))"

section \<open>The build action\<close>

record 'n BuildParams =
  bp_conditions :: "'n FilterCondition list"
  bp_groupOperator :: "string option"

definition BuildFilterSchema_ok :: "'n BuildParams \<Rightarrow> bool" where
  \<comment> \<open>the enums of \<open>BuildFilterSchema\<close>: known fields and operators; \<open>&&\<close>, \<open>||\<close> or no group operator\<close>
  "BuildFilterSchema_ok p =
     ((\<forall>c \<in> set (bp_conditions p).
          c_field c \<in> set FilterField_names \<and>
          (case c_operator c of None \<Rightarrow> False | Some op \<Rightarrow> op \<in> set FilterOperator_names)) \<and>
      (case bp_groupOperator p of None \<Rightarrow> True | Some g \<Rightarrow> g = ''&&'' \<or> g = ''||''))"

fun forEach_build ::
  "string option \<Rightarrow> nat \<Rightarrow> 'c list \<Rightarrow> 'c FilterBuilder \<Rightarrow> 'c FilterBuilder" where
  \<comment> \<open>\<open>params.conditions.forEach((condition, index) => ...)\<close>, from index \<open>i\<close> on\<close>
  "forEach_build g i [] b = b"
| "forEach_build g i (c # cs) b =
     forEach_build g (Suc i) cs
       (where_b c (if i > 0 \<and> g = Some ''||'' then or_b b else b))"

definition build_action ::
  "('n FilterCondition \<Rightarrow> string) \<Rightarrow> 'n BuildParams \<Rightarrow> 's \<Rightarrow> ('s, 'n) Outcome" where
  "build_action condStr p s =
     (if \<not> BuildFilterSchema_ok p then (Inl (ZodError ''Invalid enum value''), s, [])
      else
        let builder = forEach_build (bp_groupOperator p) 0 (bp_conditions p) new_FilterBuilder;
            filterString = toString condStr builder
        in (Inr \<lparr>r_operation = ''build-filter'', r_message = ''Filter built successfully'',
                 r_data = BuildData filterString True [],
                 r_metadata = ConditionCount (length (bp_conditions p))\<rparr>,
            s, []))"

section \<open>The validate action\<close>

text \<open>
  The parser and the validator (\<open>parseFilterString\<close>, \<open>validateFilterExpression\<close> of
  \<open>utils/filters\<close>) are not among the sources; the action takes them as parameters and
  reads of their results what is declared here.
\<close>

record 'e ParseResult =
  pr_expression :: "'e option"
  pr_error_message :: "string option"

record ValidationResult =
  vr_valid :: bool
  vr_errors :: "string list option"
  vr_warnings :: "string list option"

definition or_empty :: "string list option \<Rightarrow> string list" where
  \<comment> \<open>\<open>xs || []\<close>\<close>
  "or_empty xs = (case xs of None \<Rightarrow> [] | Some ys \<Rightarrow> ys)"

definition validate_action ::
  "(string \<Rightarrow> 'e ParseResult) \<Rightarrow> ('e \<Rightarrow> ValidationResult) \<Rightarrow> string \<Rightarrow> 's \<Rightarrow> ('s, 'n) Outcome" where
  "validate_action parseFilterString validateFilterExpression flt s =
     (let parseResult = parseFilterString flt in
      case pr_expression parseResult of
        None \<Rightarrow>
          (let errorMsg = (case pr_error_message parseResult of
                             None \<Rightarrow> ''Invalid filter syntax''
                           | Some m \<Rightarrow> if m = [] then ''Invalid filter syntax'' else m)
           in (Inl (createValidationError (''Invalid filter: '' @ errorMsg)), s, []))
      | Some expression \<Rightarrow>
          (let validationResult = validateFilterExpression expression in
           (Inr \<lparr>r_operation = ''validate-filter'',
                 r_message = (if vr_valid validationResult then ''Filter is valid''
                              else ''Filter validation failed''),
                 r_data = ValidateData (vr_valid validationResult)
                            (or_empty (vr_warnings validationResult))
                            (or_empty (vr_errors validationResult)) flt,
                 r_metadata = NoMetadata\<rparr>,
            s, [])))"

section \<open>The handler\<close>

text \<open>The \<open>list\<close> action only reads the storage; it is not modelled.\<close>

datatype 'n Request =
    Get string
  | Create "'n CreateParams"
  | Update "'n UpdateParams"
  | Delete string
  | Build "'n BuildParams"
  | Validate string

fun action_name :: "'n Request \<Rightarrow> string" where
  "action_name (Get i) = ''get''"
| "action_name (Create p) = ''create''"
| "action_name (Update p) = ''update''"
| "action_name (Delete i) = ''delete''"
| "action_name (Build p) = ''build''"
| "action_name (Validate f) = ''validate''"

text \<open>The functions of other modules that the handler calls.\<close>

record ('n, 'e) Collaborators =
  co_Number :: "string \<Rightarrow> 'n"
  co_condStr :: "'n FilterCondition \<Rightarrow> string"
  co_parseFilterString :: "string \<Rightarrow> 'e ParseResult"
  co_validateFilterExpression :: "'e \<Rightarrow> ValidationResult"

definition switch_action ::
  "('n, 'e) Collaborators \<Rightarrow> ('s, 'n) Storage \<Rightarrow> 'n Request \<Rightarrow> 's \<Rightarrow> ('s, 'n) Outcome" where
  "switch_action co storage req s =
     (case req of
        Get i \<Rightarrow> get_action storage i s
      | Create p \<Rightarrow> create_action storage (co_Number co) (co_condStr co) p s
      | Update p \<Rightarrow> update_action storage p s
      | Delete i \<Rightarrow> delete_action storage i s
      | Build p \<Rightarrow> build_action (co_condStr co) p s
      | Validate f \<Rightarrow> validate_action (co_parseFilterString co) (co_validateFilterExpression co) f s)"

definition error_operation :: "'n Request \<Rightarrow> string \<Rightarrow> string" where
  \<comment> \<open>the operation the \<open>catch\<close> block reports\<close>
  "error_operation req msg =
     (if action_name req = ''get'' \<and> includes_str msg ''not found'' then ''get-saved-filter''
      else if action_name req = ''delete'' \<and> includes_str msg ''not found'' then ''delete-saved-filter''
      else if action_name req = ''create'' \<and> includes_str msg ''already exists'' then ''create-saved-filter''
      else if action_name req = ''update'' \<and> includes_str msg ''already exists'' then ''update-saved-filter''
      else action_name req @ ''-filter'')"

datatype 'n ToolResult =
    Success "'n Response"
  | Failure string string

definition vikunja_filters ::
  "('n, 'e) Collaborators \<Rightarrow> Thrown + ('s, 'n) Storage \<Rightarrow> 'n Request \<Rightarrow> 's \<Rightarrow>
   'n ToolResult \<times> 's \<times> 'n StorageCall list" where
  \<comment> \<open>the handler: \<open>session\<close> is what \<open>getSessionStorage\<close> gave or threw; whatever is thrown
      inside the \<open>try\<close> is turned into an error response, never rethrown\<close>
  "vikunja_filters co session req s =
     (case session of
        Inl e \<Rightarrow> (Failure (error_operation req (message_of e)) (message_of e), s, [])
      | Inr storage \<Rightarrow>
          (case switch_action co storage req s of
             (Inl e, s', calls) \<Rightarrow> (Failure (error_operation req (message_of e)) (message_of e), s', calls)
           | (Inr r, s', calls) \<Rightarrow> (Success r, s', calls)))"

section \<open>The Evaluator\<close>






















section \<open>Instances of the parameters\<close>

text \<open>
  Concrete collaborators on which the theorems below are exercised: numbers held as the
  text they were read from, a condition written as field, operator and value separated by
  blanks, and a storage that keeps the saved filters in a list.
\<close>

definition example_Number :: "string \<Rightarrow> string" where
  "example_Number v = v"

fun example_item :: "string ArrayItem \<Rightarrow> string" where
  "example_item (AString s) = s"
| "example_item (ANumber n) = n"

fun example_value :: "string FilterValue \<Rightarrow> string" where
  "example_value (VString s) = s"
| "example_value (VNumber n) = n"
| "example_value (VBoolean b) = (if b then ''true'' else ''false'')"
| "example_value (VArray xs) = concat (map example_item xs)"

definition example_condStr :: "string FilterCondition \<Rightarrow> string" where
  "example_condStr c =
     c_field c @ '' '' @ (case c_operator c of None \<Rightarrow> ''undefined'' | Some op \<Rightarrow> op) @ '' '' @
     example_value (c_value c)"

definition example_parse :: "string \<Rightarrow> unit ParseResult" where
  "example_parse flt =
     (if flt = ''done = true'' then \<lparr>pr_expression = Some (), pr_error_message = None\<rparr>
      else \<lparr>pr_expression = None, pr_error_message = Some ''Unexpected token''\<rparr>)"

definition example_validate :: "unit \<Rightarrow> ValidationResult" where
  "example_validate e = \<lparr>vr_valid = True, vr_errors = Some [], vr_warnings = Some [''advisory'']\<rparr>"

definition example_collaborators :: "(string, unit) Collaborators" where
  "example_collaborators =
     \<lparr>co_Number = example_Number, co_condStr = example_condStr,
      co_parseFilterString = example_parse, co_validateFilterExpression = example_validate\<rparr>"

definition stored :: "string NewFilter \<Rightarrow> string \<Rightarrow> string SavedFilter" where
  "stored d i =
     \<lparr>sf_id = i, sf_name = nf_name d, sf_description = nf_description d, sf_filter = nf_filter d,
      sf_projectId = nf_projectId d, sf_isGlobal = nf_isGlobal d,
      sf_created = ''2024-01-01T00:00:00.000Z'', sf_updated = ''2024-01-01T00:00:00.000Z''\<rparr>"

definition changed :: "string UpdateData \<Rightarrow> string SavedFilter \<Rightarrow> string SavedFilter" where
  "changed d f =
     f\<lparr>sf_name := (case ud_name d of None \<Rightarrow> sf_name f | Some n \<Rightarrow> n),
       sf_description := (case ud_description d of None \<Rightarrow> sf_description f | Some x \<Rightarrow> Some x),
       sf_filter := (case ud_filter d of None \<Rightarrow> sf_filter f | Some x \<Rightarrow> x),
       sf_projectId := (case ud_projectId d of None \<Rightarrow> sf_projectId f | Some x \<Rightarrow> Some x),
       sf_isGlobal := (case ud_isGlobal d of None \<Rightarrow> sf_isGlobal f | Some b \<Rightarrow> b)\<rparr>"

definition example_storage :: "(string SavedFilter list, string) Storage" where
  "example_storage =
     \<lparr>st_get = (\<lambda>i s. Inr (find (\<lambda>f. sf_id f = i) s)),
      st_findByName = (\<lambda>n s. Inr (find (\<lambda>f. sf_name f = n) s)),
      st_create = (\<lambda>d s. (Inr (stored d (''f'' @ replicate (length s) CHR ''+'')),
                           s @ [stored d (''f'' @ replicate (length s) CHR ''+'')])),
      st_update = (\<lambda>i d s.
         case find (\<lambda>f. sf_id f = i) s of
           None \<Rightarrow> (Inl (OtherError ''no such filter''), s)
         | Some f \<Rightarrow> (Inr (changed d f), map (\<lambda>g. if sf_id g = i then changed d g else g) s)),
      st_delete = (\<lambda>i s. (Inr (), filter (\<lambda>f. sf_id f \<noteq> i) s))\<rparr>"

definition urgent :: "string SavedFilter" where
  "urgent =
     \<lparr>sf_id = ''f'', sf_name = ''urgent'', sf_description = None, sf_filter = ''priority >= 4'',
      sf_projectId = None, sf_isGlobal = False,
      sf_created = ''2024-01-01T00:00:00.000Z'', sf_updated = ''2024-01-01T00:00:00.000Z''\<rparr>"

definition two_conditions :: "string FilterCondition list" where
  "two_conditions =
     [\<lparr>c_field = ''priority'', c_operator = Some ''>='', c_value = VNumber ''3''\<rparr>,
      \<lparr>c_field = ''done'', c_operator = Some ''='', c_value = VBoolean False\<rparr>]"

definition create_urgent :: "string CreateParams" where
  "create_urgent =
     \<lparr>cp_name = None, cp_title = Some ''urgent'', cp_description = None,
      cp_filter = Some ''done = false'', cp_filters = None, cp_projectId = None,
      cp_isGlobal = None, cp_is_favorite = None\<rparr>"

definition create_favorite :: "string CreateParams" where
  "create_favorite =
     \<lparr>cp_name = Some ''mine'', cp_title = None, cp_description = None,
      cp_filter = Some ''done = false'', cp_filters = None, cp_projectId = None,
      cp_isGlobal = Some False, cp_is_favorite = Some True\<rparr>"

definition create_empty :: "string CreateParams" where
  "create_empty =
     \<lparr>cp_name = Some ''mine'', cp_title = None, cp_description = None, cp_filter = None,
      cp_filters = Some \<lparr>fo_filter_by = Some [''done''], fo_filter_value = Some [''''],
                         fo_filter_comparator = Some [''=''], fo_filter_concat = None\<rparr>,
      cp_projectId = None, cp_isGlobal = None, cp_is_favorite = None\<rparr>"

definition other :: "string SavedFilter" where
  "other =
     \<lparr>sf_id = ''f+'', sf_name = ''later'', sf_description = None, sf_filter = ''done = true'',
      sf_projectId = None, sf_isGlobal = False,
      sf_created = ''2024-01-01T00:00:00.000Z'', sf_updated = ''2024-01-01T00:00:00.000Z''\<rparr>"

definition rename_to :: "string \<Rightarrow> string UpdateParams" where
  "rename_to n =
     \<lparr>up_id = ''f'', up_name = Some n, up_description = None, up_filter = None,
      up_projectId = None, up_isGlobal = None\<rparr>"





section \<open>Properties of the Builder and of the build action\<close>

lemma join_Cons: "join sep (x # xs) = x @ concat (map (\<lambda>y. sep @ y) xs)"
  by (induction xs arbitrary: x) auto

lemma forEach_build_chain:
  assumes "b_expr b = Some e" and "b_pending b = None" and "i > 0"
  shows "toString condStr (forEach_build g i cs b) =
         expressionToString condStr e @
         concat (map (\<lambda>c. (if g = Some ''||'' then '' || '' else '' && '') @ condStr c) cs)"
  using assms
proof (induction cs arbitrary: b e i)
  case Nil
  then show ?case by (simp add: toString_def)
next
  case (Cons c cs)
  let ?k = "if g = Some ''||'' then OR else AND"
  let ?b = "where_b c (if i > 0 \<and> g = Some ''||'' then or_b b else b)"
  have e': "b_expr ?b = Some (BinaryNode ?k e (Condition c))"
    using Cons.prems by (simp add: where_b_def or_b_def)
  have p': "b_pending ?b = None"
    using Cons.prems by (simp add: where_b_def or_b_def)
  have "toString condStr (forEach_build g (Suc i) cs ?b) =
        expressionToString condStr (BinaryNode ?k e (Condition c)) @
        concat (map (\<lambda>c. (if g = Some ''||'' then '' || '' else '' && '') @ condStr c) cs)"
    by (rule Cons.IH [OF e' p']) simp
  then show ?case by simp
qed

lemma forEach_build_first:
  "toString condStr (forEach_build g 0 (c # cs) new_FilterBuilder) =
   join (if g = Some ''||'' then '' || '' else '' && '') (map condStr (c # cs))"
proof -
  let ?b = "where_b c (new_FilterBuilder :: 'a FilterBuilder)"
  have e: "b_expr ?b = Some (Condition c)" and p: "b_pending ?b = None"
    by (simp_all add: where_b_def new_FilterBuilder_def)
  have "toString condStr (forEach_build g (Suc 0) cs ?b) =
        expressionToString condStr (Condition c) @
        concat (map (\<lambda>c. (if g = Some ''||'' then '' || '' else '' && '') @ condStr c) cs)"
    by (rule forEach_build_chain [OF e p]) simp
  then show ?thesis by (simp add: join_Cons comp_def)
qed

text \<open>
  C5. For the build action on a non-empty list of conditions that the schema accepts, the
  returned filter string is the conditions' serialized forms joined with \<open>||\<close> when
  \<open>groupOperator\<close> is \<open>||\<close>, and with \<open>&&\<close> otherwise (also when no group operator was
  given: AND is the default).
\<close>

theorem build_joins_conditions:
  assumes "bp_conditions p \<noteq> []" and "BuildFilterSchema_ok p"
  shows "\<exists>r. build_action condStr p s = (Inr r, s, []) \<and>
             r_data r =
               BuildData
                 (join (if bp_groupOperator p = Some ''||'' then '' || '' else '' && '')
                       (map condStr (bp_conditions p)))
                 True []"
proof -
  obtain c cs where cs: "bp_conditions p = c # cs"
    using assms(1) by (cases "bp_conditions p") auto
  show ?thesis
    using assms(2) forEach_build_first [of condStr "bp_groupOperator p" c cs]
    by (simp add: build_action_def cs Let_def)
qed

theorem build_joins_conditions_witness:
  "bp_conditions \<lparr>bp_conditions = two_conditions, bp_groupOperator = Some ''||''\<rparr> \<noteq> [] \<and>
   BuildFilterSchema_ok \<lparr>bp_conditions = two_conditions, bp_groupOperator = Some ''||''\<rparr> \<and>
   (\<exists>r. build_action example_condStr \<lparr>bp_conditions = two_conditions, bp_groupOperator = Some ''||''\<rparr> ()
          = (Inr r, (), []) \<and>
        r_data r = (BuildData ''priority >= 3 || done = false'' True [] :: string ResponseData))"
proof -
  let ?p = "\<lparr>bp_conditions = two_conditions, bp_groupOperator = Some ''||''\<rparr>"
  have ne: "bp_conditions ?p \<noteq> []" by (simp add: two_conditions_def)
  have ok: "BuildFilterSchema_ok ?p"
    by (simp add: BuildFilterSchema_ok_def two_conditions_def FilterField_names_def
          FilterOperator_names_def)
  show ?thesis
    using build_joins_conditions [OF ne ok, of example_condStr "()"] ne ok
    by (simp add: two_conditions_def example_condStr_def)
qed

lemma create_builder_empty:
  "effective_conditions Number fo = [] \<Longrightarrow> toString condStr (create_builder Number fo) = []"
  by (simp add: create_builder_def toString_def new_FilterBuilder_def)

text \<open>
  The create action, when no filter string was given and its conditions object yields no
  condition, finds the builder's string empty and rejects it with the validation error
  \<open>No filter conditions provided\<close> before any storage call. A builder that received no
  condition serializes to the empty string in the build action too.
\<close>

lemma empty_conditions_create_rejects:
  "toString condStr (forEach_build g 0 [] new_FilterBuilder) = [] \<and>
   (CreateFilterSchema_ok p \<and> \<not> truthy (cp_filter p) \<and> cp_filters p = Some fo \<and>
    effective_conditions Number fo = [] \<longrightarrow>
      toString condStr' (create_builder Number fo) = [] \<and>
      create_action storage Number condStr' p s =
        (Inl (MCPError VALIDATION_ERROR ''No filter conditions provided''), s, []))"
proof -
  have a: "toString condStr (forEach_build g 0 [] new_FilterBuilder) = []"
    by (simp add: toString_def new_FilterBuilder_def)
  have b: "create_action storage Number condStr' p s =
        (Inl (MCPError VALIDATION_ERROR ''No filter conditions provided''), s, [])"
    if ok: "CreateFilterSchema_ok p" and nf: "\<not> truthy (cp_filter p)"
      and fo: "cp_filters p = Some fo" and ec: "effective_conditions Number fo = []"
  proof -
    have fs: "create_filterString Number condStr' p = Some []"
      using nf fo ec by (simp add: create_filterString_def create_builder_empty)
    have "truthy (or_else (cp_name p) (cp_title p))"
      using ok by (simp add: CreateFilterSchema_ok_def)
    then obtain name where n: "or_else (cp_name p) (cp_title p) = Some name"
      by (auto simp: truthy_def split: option.splits)
    show ?thesis
      using ok by (simp add: create_action_def fs n createValidationError_def)
  qed
  from a b show ?thesis by (simp add: create_builder_empty)
qed

lemma create_empty_rejected:
  "create_action example_storage example_Number example_condStr create_empty [urgent] =
     (Inl (MCPError VALIDATION_ERROR ''No filter conditions provided''), [urgent], [])"
proof -
  let ?fo = "\<lparr>fo_filter_by = Some [''done''], fo_filter_value = Some [''''],
              fo_filter_comparator = Some [''=''], fo_filter_concat = None\<rparr>"
  have ok: "CreateFilterSchema_ok create_empty"
    by (simp add: CreateFilterSchema_ok_def create_empty_def or_else_def truthy_def)
  have nf: "\<not> truthy (cp_filter create_empty)"
    by (simp add: create_empty_def truthy_def)
  have fo: "cp_filters create_empty = Some ?fo"
    by (simp add: create_empty_def)
  have ec: "effective_conditions example_Number ?fo = []"
    by (simp add: effective_conditions_def collect_conditions_def condition_at_def nth_opt_def
          List.map_filter_simps)
  show ?thesis
    using empty_conditions_create_rejects
      [of example_condStr None create_empty ?fo example_Number example_condStr
          example_storage "[urgent]"]
      ok nf fo ec
    by simp
qed

text \<open>
  C4. The build action has no such guard. On an empty list of conditions, where the claim
  and the create action reject the empty filter string with a validation error, it
  returns a response that carries the empty filter string and calls it valid.
\<close>

theorem build_empty_not_rejected:
  "build_action example_condStr \<lparr>bp_conditions = [], bp_groupOperator = None\<rparr> () =
     (Inr \<lparr>r_operation = ''build-filter'', r_message = ''Filter built successfully'',
           r_data = BuildData [] True [], r_metadata = ConditionCount 0\<rparr>, (), [])"
  by (simp add: build_action_def BuildFilterSchema_ok_def toString_def new_FilterBuilder_def)

section \<open>Properties of the saved-filter actions\<close>

lemma example_findByName:
  "st_findByName example_storage n s = Inr (find (\<lambda>f. sf_name f = n) s)"
  by (simp add: example_storage_def)

lemma example_get: "st_get example_storage i s = Inr (find (\<lambda>f. sf_id f = i) s)"
  by (simp add: example_storage_def)

lemma includes_str_self: "includes_str sub sub"
  by (cases sub) auto

lemma includes_str_append: "includes_str (xs @ sub) sub"
  by (induction xs) (auto simp: includes_str_self)

lemma not_found_includes: "includes_str (not_found_message i) ''not found''"
  unfolding not_found_message_def
  using includes_str_append [of "''Filter with id '' @ i @ '' ''" "''not found''"] by simp

lemma already_exists_includes: "includes_str (already_exists_message n) ''already exists''"
  unfolding already_exists_message_def
  using includes_str_append [of "''Filter with name '' @ quoted n @ '' ''" "''already exists''"] by simp

lemma vikunja_filters_thrown:
  "switch_action co storage req s = (Inl e, s', calls) \<Longrightarrow>
   vikunja_filters co (Inr storage) req s =
     (Failure (error_operation req (message_of e)) (message_of e), s', calls)"
  by (simp add: vikunja_filters_def)

lemma vikunja_filters_returned:
  "switch_action co storage req s = (Inr r, s', calls) \<Longrightarrow>
   vikunja_filters co (Inr storage) req s = (Success r, s', calls)"
  by (simp add: vikunja_filters_def)

text \<open>
  C6. A create action whose requested name (\<open>name\<close>, or \<open>title\<close> when there is no name)
  is the name of a stored filter fails, the storage is unchanged and \<open>storage.create\<close> is
  not called. Where the schema accepted the parameters the error is a validation error of
  the tool; otherwise it is the schema's own error.
\<close>

theorem create_duplicate_name_rejected:
  assumes "or_else (cp_name p) (cp_title p) = Some name"
      and "st_findByName storage name s = Inr (Some existing)"
  shows "\<exists>e calls.
            create_action storage Number condStr p s = (Inl e, s, calls) \<and>
            \<not> list_ex is_create calls \<and>
            (if CreateFilterSchema_ok p then \<exists>msg. e = MCPError VALIDATION_ERROR msg
             else \<exists>msg. e = ZodError msg)"
  using assms
  by (auto simp: create_action_def createValidationError_def split: option.splits)

theorem create_duplicate_name_rejected_witness:
  "or_else (cp_name create_urgent) (cp_title create_urgent) = Some ''urgent'' \<and>
   st_findByName example_storage ''urgent'' [urgent] = Inr (Some urgent) \<and>
   CreateFilterSchema_ok create_urgent \<and>
   (\<exists>e calls. create_action example_storage example_Number example_condStr create_urgent [urgent] =
        (Inl e, [urgent], calls) \<and> \<not> list_ex is_create calls \<and>
        (\<exists>msg. e = MCPError VALIDATION_ERROR msg))"
proof -
  have n: "or_else (cp_name create_urgent) (cp_title create_urgent) = Some ''urgent''"
    by (simp add: create_urgent_def or_else_def truthy_def)
  have f: "st_findByName example_storage ''urgent'' [urgent] = Inr (Some urgent)"
    by (simp add: example_findByName urgent_def)
  have ok: "CreateFilterSchema_ok create_urgent"
    by (simp add: CreateFilterSchema_ok_def create_urgent_def or_else_def truthy_def)
  show ?thesis
    using create_duplicate_name_rejected [OF n f, of example_Number example_condStr] n f ok
    by simp
qed

text \<open>
  C7. A get or delete action whose id the storage does not know throws \<open>NOT_FOUND\<close> right
  after the lookup; the handler reports it as a failure with the message of the error.
  The lookup is the only storage call: delete does not call \<open>storage.delete\<close>, and the
  storage is unchanged.
\<close>

theorem not_found_surfaced:
  assumes "st_get storage i s = Inr None"
  shows "get_action storage i s = (Inl (MCPError NOT_FOUND (not_found_message i)), s, [CallGet i]) \<and>
         delete_action storage i s = (Inl (MCPError NOT_FOUND (not_found_message i)), s, [CallGet i]) \<and>
         vikunja_filters co (Inr storage) (Get i) s =
           (Failure ''get-saved-filter'' (not_found_message i), s, [CallGet i]) \<and>
         vikunja_filters co (Inr storage) (Delete i) s =
           (Failure ''delete-saved-filter'' (not_found_message i), s, [CallGet i])"
proof -
  have g: "get_action storage i s = (Inl (MCPError NOT_FOUND (not_found_message i)), s, [CallGet i])"
    using assms by (simp add: get_action_def)
  have d: "delete_action storage i s = (Inl (MCPError NOT_FOUND (not_found_message i)), s, [CallGet i])"
    using assms by (simp add: delete_action_def)
  have hg: "vikunja_filters co (Inr storage) (Get i) s =
           (Failure ''get-saved-filter'' (not_found_message i), s, [CallGet i])"
    using vikunja_filters_thrown [of co storage "Get i" s, OF _]
    by (simp add: switch_action_def g error_operation_def not_found_includes)
  have hd: "vikunja_filters co (Inr storage) (Delete i) s =
           (Failure ''delete-saved-filter'' (not_found_message i), s, [CallGet i])"
    using vikunja_filters_thrown [of co storage "Delete i" s, OF _]
    by (simp add: switch_action_def d error_operation_def not_found_includes)
  from g d hg hd show ?thesis by simp
qed

theorem not_found_surfaced_witness:
  "st_get example_storage ''zz'' [urgent] = Inr None \<and>
   get_action example_storage ''zz'' [urgent] =
     (Inl (MCPError NOT_FOUND ''Filter with id zz not found''), [urgent], [CallGet ''zz'']) \<and>
   delete_action example_storage ''zz'' [urgent] =
     (Inl (MCPError NOT_FOUND ''Filter with id zz not found''), [urgent], [CallGet ''zz'']) \<and>
   vikunja_filters example_collaborators (Inr example_storage) (Get ''zz'') [urgent] =
     (Failure ''get-saved-filter'' ''Filter with id zz not found'', [urgent], [CallGet ''zz'']) \<and>
   vikunja_filters example_collaborators (Inr example_storage) (Delete ''zz'') [urgent] =
     (Failure ''delete-saved-filter'' ''Filter with id zz not found'', [urgent], [CallGet ''zz''])"
proof -
  have g: "st_get example_storage ''zz'' [urgent] = Inr None"
    by (simp add: example_get urgent_def)
  show ?thesis
    using not_found_surfaced [OF g, of example_collaborators] g
    by (simp add: not_found_message_def)
qed

text \<open>
  C8. The validate action: when the parser gives an expression, the response carries the
  validator's \<open>valid\<close>, \<open>warnings\<close> and \<open>errors\<close> (empty lists for absent ones) and the filter
  string, whatever the warnings are; when the parser gives no expression, the action
  throws a validation error with the parser's message and returns no response.
\<close>

theorem validate_action_result:
  "(\<forall>e. pr_expression (parseFilterString flt) = Some e \<longrightarrow>
      validate_action parseFilterString validateFilterExpression flt s =
        (Inr \<lparr>r_operation = ''validate-filter'',
              r_message = (if vr_valid (validateFilterExpression e) then ''Filter is valid''
                           else ''Filter validation failed''),
              r_data = ValidateData (vr_valid (validateFilterExpression e)) (or_empty (vr_warnings (validateFilterExpression e)))
                         (or_empty (vr_errors (validateFilterExpression e))) flt,
              r_metadata = NoMetadata\<rparr>, s, [])) \<and>
   (pr_expression (parseFilterString flt) = None \<longrightarrow>
      validate_action parseFilterString validateFilterExpression flt s =
        (Inl (MCPError VALIDATION_ERROR
               (''Invalid filter: '' @
                (if truthy (pr_error_message (parseFilterString flt)) then the (pr_error_message (parseFilterString flt))
                 else ''Invalid filter syntax''))), s, []))"
  by (auto simp: validate_action_def Let_def createValidationError_def truthy_def
           split: option.splits)

theorem validate_action_result_witness:
  "pr_expression (example_parse ''done = true'') = Some () \<and>
   validate_action example_parse example_validate ''done = true'' () =
     (Inr \<lparr>r_operation = ''validate-filter'', r_message = ''Filter is valid'',
           r_data = ValidateData True [''advisory''] [] ''done = true'',
           r_metadata = NoMetadata\<rparr>, (), ([] :: string StorageCall list)) \<and>
   pr_expression (example_parse ''priority >>> 3'') = None \<and>
   validate_action example_parse example_validate ''priority >>> 3'' () =
     (Inl (MCPError VALIDATION_ERROR ''Invalid filter: Unexpected token''), (),
      ([] :: string StorageCall list))"
proof -
  have a: "pr_expression (example_parse ''done = true'') = Some ()"
    by (simp add: example_parse_def)
  have b: "pr_expression (example_parse ''priority >>> 3'') = None"
    by (simp add: example_parse_def)
  have m: "pr_error_message (example_parse ''priority >>> 3'') = Some ''Unexpected token''"
    by (simp add: example_parse_def)
  show ?thesis
    using validate_action_result [of example_parse "''done = true''" example_validate "()"]
      validate_action_result [of example_parse "''priority >>> 3''" example_validate "()"]
      a b m
    by (simp add: example_validate_def or_empty_def truthy_def)
qed

text \<open>
  C9. In a create action with \<open>is_favorite = true\<close>, every filter handed to
  \<open>storage.create\<close> has \<open>isGlobal = true\<close>, whatever \<open>isGlobal\<close> was. When the schema
  accepts the parameters, the filter string is not empty and the name is free, the action
  applies \<open>storage.create\<close> to the filter with that name, that filter string and
  \<open>isGlobal = true\<close>: the storage afterwards is the one \<open>storage.create\<close> left, and the
  response carries the saved filter it returned (or the action throws what it threw).
\<close>

theorem favorite_stored_global:
  assumes "cp_is_favorite p = Some True"
  shows "(\<forall>d. CallCreate d \<in> set (snd (snd (create_action storage Number condStr p s))) \<longrightarrow>
              nf_isGlobal d) \<and>
         (CreateFilterSchema_ok p \<and> or_else (cp_name p) (cp_title p) = Some name \<and>
          create_filterString Number condStr p = Some fs \<and> fs \<noteq> [] \<and>
          st_findByName storage name s = Inr None \<longrightarrow>
            (\<forall>f s'.
               st_create storage
                 \<lparr>nf_name = name, nf_filter = fs, nf_isGlobal = True,
                  nf_description = (if truthy (cp_description p) then cp_description p else None),
                  nf_projectId = cp_projectId p\<rparr> s = (Inr f, s') \<longrightarrow>
               create_action storage Number condStr p s =
                 (Inr \<lparr>r_operation = ''create-saved-filter'',
                       r_message = ''Filter '' @ quoted (sf_name f) @ '' saved successfully'',
                       r_data = FilterData f, r_metadata = NoMetadata\<rparr>,
                  s',
                  [CallFindByName name,
                   CallCreate
                     \<lparr>nf_name = name, nf_filter = fs, nf_isGlobal = True,
                      nf_description = (if truthy (cp_description p) then cp_description p else None),
                      nf_projectId = cp_projectId p\<rparr>])) \<and>
            (\<forall>e s'.
               st_create storage
                 \<lparr>nf_name = name, nf_filter = fs, nf_isGlobal = True,
                  nf_description = (if truthy (cp_description p) then cp_description p else None),
                  nf_projectId = cp_projectId p\<rparr> s = (Inl e, s') \<longrightarrow>
               create_action storage Number condStr p s =
                 (Inl e, s',
                  [CallFindByName name,
                   CallCreate
                     \<lparr>nf_name = name, nf_filter = fs, nf_isGlobal = True,
                      nf_description = (if truthy (cp_description p) then cp_description p else None),
                      nf_projectId = cp_projectId p\<rparr>])))"
proof -
  let ?d = "\<lparr>nf_name = name, nf_filter = fs, nf_isGlobal = True,
            nf_description = (if truthy (cp_description p) then cp_description p else None),
            nf_projectId = cp_projectId p\<rparr>"
  have data: "create_data name fs p = ?d"
    using assms by (simp add: create_data_def)
  have calls: "\<forall>d. CallCreate d \<in> set (snd (snd (create_action storage Number condStr p s))) \<longrightarrow>
              nf_isGlobal d"
    using assms
    by (auto simp: create_action_def create_data_def split: option.splits sum.splits prod.splits)
  have reach: "create_action storage Number condStr p s =
      (case st_create storage (create_data name fs p) s of
         (Inl e, s') \<Rightarrow> (Inl e, s', [CallFindByName name, CallCreate (create_data name fs p)])
       | (Inr f, s') \<Rightarrow>
           (Inr \<lparr>r_operation = ''create-saved-filter'',
                 r_message = ''Filter '' @ quoted (sf_name f) @ '' saved successfully'',
                 r_data = FilterData f, r_metadata = NoMetadata\<rparr>,
            s', [CallFindByName name, CallCreate (create_data name fs p)]))"
    if "CreateFilterSchema_ok p" "or_else (cp_name p) (cp_title p) = Some name"
       "create_filterString Number condStr p = Some fs" "fs \<noteq> []"
       "st_findByName storage name s = Inr None"
    using that by (simp add: create_action_def)
  show ?thesis
    using calls reach unfolding data [symmetric]
    by (auto split: prod.splits sum.splits)
qed

theorem favorite_stored_global_witness:
  "cp_is_favorite create_favorite = Some True \<and>
   CreateFilterSchema_ok create_favorite \<and>
   or_else (cp_name create_favorite) (cp_title create_favorite) = Some ''mine'' \<and>
   create_filterString example_Number example_condStr create_favorite = Some ''done = false'' \<and>
   st_findByName example_storage ''mine'' [urgent] = Inr None \<and>
   create_action example_storage example_Number example_condStr create_favorite [urgent] =
     (Inr \<lparr>r_operation = ''create-saved-filter'',
           r_message = ''Filter '' @ quoted ''mine'' @ '' saved successfully'',
           r_data = FilterData
             \<lparr>sf_id = ''f+'', sf_name = ''mine'', sf_description = None,
              sf_filter = ''done = false'', sf_projectId = None, sf_isGlobal = True,
              sf_created = ''2024-01-01T00:00:00.000Z'', sf_updated = ''2024-01-01T00:00:00.000Z''\<rparr>,
           r_metadata = NoMetadata\<rparr>,
      [urgent,
       \<lparr>sf_id = ''f+'', sf_name = ''mine'', sf_description = None,
        sf_filter = ''done = false'', sf_projectId = None, sf_isGlobal = True,
        sf_created = ''2024-01-01T00:00:00.000Z'', sf_updated = ''2024-01-01T00:00:00.000Z''\<rparr>],
      [CallFindByName ''mine'',
       CallCreate \<lparr>nf_name = ''mine'', nf_filter = ''done = false'', nf_isGlobal = True,
                   nf_description = None, nf_projectId = None\<rparr>])"
proof -
  let ?d = "\<lparr>nf_name = ''mine'', nf_filter = ''done = false'', nf_isGlobal = True,
            nf_description = None, nf_projectId = None :: string option\<rparr>"
  let ?f = "\<lparr>sf_id = ''f+'', sf_name = ''mine'', sf_description = None,
        sf_filter = ''done = false'', sf_projectId = None :: string option, sf_isGlobal = True,
        sf_created = ''2024-01-01T00:00:00.000Z'', sf_updated = ''2024-01-01T00:00:00.000Z''\<rparr>"
  have fav: "cp_is_favorite create_favorite = Some True"
    by (simp add: create_favorite_def)
  have ok: "CreateFilterSchema_ok create_favorite"
    by (simp add: CreateFilterSchema_ok_def create_favorite_def or_else_def truthy_def)
  have n: "or_else (cp_name create_favorite) (cp_title create_favorite) = Some ''mine''"
    by (simp add: create_favorite_def or_else_def truthy_def)
  have fs: "create_filterString example_Number example_condStr create_favorite = Some ''done = false''"
    by (simp add: create_filterString_def create_favorite_def truthy_def)
  have f: "st_findByName example_storage ''mine'' [urgent] = Inr None"
    by (simp add: example_findByName urgent_def)
  have desc: "\<not> truthy (cp_description create_favorite)" "cp_projectId create_favorite = None"
    by (simp_all add: create_favorite_def truthy_def)
  have c: "st_create example_storage ?d [urgent] = (Inr ?f, [urgent, ?f])"
    by (simp add: example_storage_def stored_def)
  show ?thesis
    using favorite_stored_global [OF fav, of example_storage example_Number example_condStr
        "[urgent]" "''mine''" "''done = false''"] fav ok n fs f desc c
    by simp
qed

text \<open>
  C10. In an update action that sets a non-empty name, with the name lookup returning,
  the action stops with the duplicate-name validation error exactly when the lookup
  found a filter with another id. When it found the filter being updated itself, the
  action goes on to \<open>storage.update\<close> and returns what the storage returned.
\<close>

theorem update_duplicate_name_only_for_other_id:
  assumes "up_name p = Some name" and "name \<noteq> []"
      and "st_findByName storage name s = Inr found"
  shows "((update_action storage p s =
            (Inl (createValidationError (already_exists_message name)), s, [CallFindByName name]))
          \<longleftrightarrow> (\<exists>f. found = Some f \<and> sf_id f \<noteq> up_id p)) \<and>
         (\<forall>f f' s'. found = Some f \<and> sf_id f = up_id p \<and>
            st_update storage (up_id p) (update_data p) s = (Inr f', s') \<longrightarrow>
            update_action storage p s =
              (Inr \<lparr>r_operation = ''update-saved-filter'',
                    r_message = ''Filter '' @ quoted (sf_name f') @ '' updated successfully'',
                    r_data = FilterData f',
                    r_metadata = AffectedFields (affectedFields (update_data p))\<rparr>,
               s', [CallFindByName name, CallUpdate (up_id p) (update_data p)]))"
  using assms
  by (auto simp: update_action_def update_store_def split: option.splits sum.splits prod.splits)

theorem update_duplicate_name_only_for_other_id_witness:
  "up_name (rename_to ''urgent'') = Some ''urgent'' \<and> ''urgent'' \<noteq> [] \<and>
   st_findByName example_storage ''urgent'' [urgent, other] = Inr (Some urgent) \<and>
   sf_id urgent = up_id (rename_to ''urgent'') \<and>
   st_update example_storage ''f'' (update_data (rename_to ''urgent'')) [urgent, other] =
     (Inr urgent, [urgent, other]) \<and>
   update_action example_storage (rename_to ''urgent'') [urgent, other] \<noteq>
     (Inl (createValidationError (already_exists_message ''urgent'')), [urgent, other],
      [CallFindByName ''urgent'']) \<and>
   update_action example_storage (rename_to ''urgent'') [urgent, other] =
     (Inr \<lparr>r_operation = ''update-saved-filter'',
           r_message = ''Filter '' @ quoted ''urgent'' @ '' updated successfully'',
           r_data = FilterData urgent, r_metadata = AffectedFields [''name'']\<rparr>,
      [urgent, other],
      [CallFindByName ''urgent'', CallUpdate ''f'' (update_data (rename_to ''urgent''))])"
proof -
  have n: "up_name (rename_to ''urgent'') = Some ''urgent''" by (simp add: rename_to_def)
  have ne: "''urgent'' \<noteq> []" by simp
  have f: "st_findByName example_storage ''urgent'' [urgent, other] = Inr (Some urgent)"
    by (simp add: example_findByName urgent_def)
  have i: "sf_id urgent = up_id (rename_to ''urgent'')" by (simp add: urgent_def rename_to_def)
  have u: "st_update example_storage ''f'' (update_data (rename_to ''urgent'')) [urgent, other] =
     (Inr urgent, [urgent, other])"
    by (simp add: example_storage_def urgent_def other_def update_data_def rename_to_def changed_def)
  have a: "affectedFields (update_data (rename_to ''urgent'')) = [''name'']"
    by (simp add: affectedFields_def update_data_def rename_to_def)
  have id: "up_id (rename_to ''urgent'') = ''f''" by (simp add: rename_to_def)
  have nm: "sf_name urgent = ''urgent''" by (simp add: urgent_def)
  show ?thesis
    using update_duplicate_name_only_for_other_id [OF n ne f] n f i u a id nm
    by simp
qed

section \<open>Properties of the Evaluator\<close>







end
